theory Spec2Isabelle
  imports Main "HOL-Library.Char_ord" "HOL-Library.List_Lexorder"
begin

section \<open>Values shared by every operation\<close>

text \<open>
  The package under verification is a thin client: each exported function builds a URL,
  performs one \<^verbatim>\<open>http.Get\<close>, reads the body with \<^verbatim>\<open>io.ReadAll\<close>, and hands the
  bytes to \<^verbatim>\<open>json.Unmarshal\<close>.  Go strings are byte sequences and are modelled as
  \<^typ>\<open>string\<close>; Go's \<^verbatim>\<open>int\<close> is modelled as \<^typ>\<open>int\<close> (no arithmetic is performed
  on it, only range checks while decoding).  A Go slice is a list that may also be
  \<^verbatim>\<open>nil\<close>; a Go pointer result is an option.
\<close>

type_synonym 'a slice = "'a list option"

definition len :: "'a slice \<Rightarrow> nat" where
  "len s = (case s of None \<Rightarrow> 0 | Some xs \<Rightarrow> length xs)"

text \<open>
  Go's \<^verbatim>\<open>error\<close> interface.  The first four constructors are the errors produced by the
  standard library (the payload is the library's description of the failure and is opaque
  to this package); \<open>ErrorString\<close> is the value built by \<^verbatim>\<open>errors.New\<close>.
\<close>

datatype error =
    TransportError string
  | ReadError string
  | SyntaxError string
  | UnmarshalTypeError string string
  | ErrorString string

definition MusicBrainzAPIEndpoint :: string where
  "MusicBrainzAPIEndpoint = ''https://musicbrainz.org/ws/2/''"

section \<open>JSON documents\<close>

text \<open>
  A response body is represented by what \<^verbatim>\<open>json.Unmarshal\<close>'s scanner makes of it: either
  the text is not a JSON document (the scanner's \<^verbatim>\<open>SyntaxError\<close> is kept), or it is one,
  given as a syntax tree.  Object members are kept in document order, repeated keys
  included.  A number literal is either an integer literal or a literal with a fraction or
  an exponent (kept as its text).
\<close>

datatype json =
    JNull
  | JBool bool
  | JInt int
  | JFloat string
  | JStr string
  | JArr "json list"
  | JObj "(string \<times> json) list"

datatype body = Malformed string | Wellformed json


section \<open>Building URLs\<close>

subsection \<open>\<^verbatim>\<open>strconv.Itoa\<close>\<close>

definition digit :: "nat \<Rightarrow> char" where
  "digit d = char_of (48 + d)"

fun formatUint :: "nat \<Rightarrow> string" where
  "formatUint n = (if n < 10 then [digit n] else formatUint (n div 10) @ [digit (n mod 10)])"

declare formatUint.simps [simp del]

definition Itoa :: "int \<Rightarrow> string" where
  "Itoa i = (if i < 0 then CHR ''-'' # formatUint (nat (- i)) else formatUint (nat i))"

subsection \<open>\<^verbatim>\<open>url.QueryEscape\<close>\<close>

text \<open>
  In query-component mode the library leaves ASCII letters, digits and the four marks
  \<^verbatim>\<open>- _ . ~\<close> alone, writes a space as \<^verbatim>\<open>+\<close>, and writes every other byte as
  \<^verbatim>\<open>%XX\<close> with upper-case hexadecimal digits.
\<close>

definition shouldEscape :: "char \<Rightarrow> bool" where
  "shouldEscape c =
     (if (CHR ''a'' \<le> c \<and> c \<le> CHR ''z'') \<or> (CHR ''A'' \<le> c \<and> c \<le> CHR ''Z'')
          \<or> (CHR ''0'' \<le> c \<and> c \<le> CHR ''9'')
      then False
      else if c \<in> {CHR ''-'', CHR ''_'', CHR ''.'', CHR ''~''} then False
      else True)"

definition upperhex :: string where
  "upperhex = ''0123456789ABCDEF''"

definition escapeByte :: "char \<Rightarrow> string" where
  "escapeByte c =
     (if shouldEscape c
      then (if c = CHR '' '' then ''+''
            else [CHR ''%'', upperhex ! (of_char c div 16), upperhex ! (of_char c mod 16)])
      else [c])"

definition QueryEscape :: "string \<Rightarrow> string" where
  "QueryEscape s = concat (map escapeByte s)"

subsection \<open>\<^verbatim>\<open>url.Values\<close>\<close>

text \<open>
  \<^verbatim>\<open>url.Values\<close> is a map from a key to a list of values.  \<open>Set\<close> replaces the values of
  a key by one value; \<open>Encode\<close> walks the keys in sorted order and writes
  \<^verbatim>\<open>key=value\<close> pairs, both escaped, separated by \<^verbatim>\<open>&\<close>.
\<close>

type_synonym Values = "(string \<times> string list) list"

definition Values_Set :: "Values \<Rightarrow> string \<Rightarrow> string \<Rightarrow> Values" where
  "Values_Set v key val =
     (if key \<in> fst ` set v then map (\<lambda>(k, vs). if k = key then (k, [val]) else (k, vs)) v
      else v @ [(key, [val])])"

definition Values_Encode :: "Values \<Rightarrow> string" where
  "Values_Encode v =
     fold (\<lambda>k buf.
            fold (\<lambda>x buf'. (if buf' \<noteq> [] then buf' @ ''&'' else buf')
                             @ QueryEscape k @ ''='' @ QueryEscape x)
                 (case map_of v k of Some vs \<Rightarrow> vs | None \<Rightarrow> []) buf)
          (sort (map fst v)) []"


section \<open>The data model\<close>

text \<open>
  The structs of the package, with one field per source field.  \<open>Artist\<close> and \<open>Relation\<close>
  refer to each other (an artist has relations, a relation names an artist), so they are
  a pair of mutually recursive datatypes; the other structs are records.  Field names carry
  the struct's name as a prefix because several structs have an \<^verbatim>\<open>ID\<close>, a \<^verbatim>\<open>Name\<close> or a
  \<^verbatim>\<open>Type\<close>.
\<close>

record Alias =
  Alias_Name :: string
  Alias_Type :: string

record Tag =
  Tag_Name :: string

datatype Artist = Artist
    (Artist_ID: string)
    (Artist_Name: string)
    (Artist_SortName: string)
    (Artist_Type: string)
    (Artist_Country: string)
    (Artist_Area: string)
    (Artist_BeginDate: string)
    (Artist_EndDate: string)
    (Artist_Disambig: string)
    (Artist_Aliases: "Alias slice")
    (Artist_Relations: "Relation slice")
    (Artist_Tags: "Tag slice")
and Relation = Relation
    (Relation_Type: string)
    (Relation_URL: string)
    (Relation_Artist: Artist)

record TextRepresentation =
  Language :: string
  Script :: string

record ArtistCredit =
  ArtistCredit_Name :: string

record ArtistName =
  ArtistName_Name :: string

record ReleaseGroup =
  ReleaseGroup_ID :: string
  ReleaseGroup_Type :: string

record GBImage =
  ImageURL :: string
  Types :: "string slice"

record CoverArtURL =
  Artwork :: bool
  Front :: bool
  Back :: bool
  Count :: int
  Images :: "GBImage slice"

record Release =
  Release_ID :: string
  Release_Title :: string
  Release_Status :: string
  Release_TextRepresetation :: TextRepresentation
  Release_ArtistCredit :: "ArtistCredit slice"
  Release_ReleaseGroup :: ReleaseGroup
  Release_Relations :: "Relation slice"
  Release_Tags :: "Tag slice"
  Release_CoverArtURL :: "CoverArtURL slice"

record Recording =
  Recording_ID :: string
  Recording_Title :: string
  Recording_Length :: int
  Recording_ReleaseDate :: string
  Recording_Relations :: "Relation slice"
  Recording_Tags :: "Tag slice"
  Recording_ArtistCredit :: "ArtistName slice"
  Recording_Releases :: "Release slice"

text \<open>The anonymous envelope structs declared inside the search functions.\<close>

record ArtistsResult =
  Artists :: "Artist slice"

record ReleasesResult =
  Releases :: "Release slice"

record RecordingsResult =
  Recordings :: "Recording slice"

subsection \<open>Zero values\<close>

definition zero_Alias :: Alias where
  "zero_Alias = \<lparr>Alias_Name = [], Alias_Type = []\<rparr>"

definition zero_Tag :: Tag where
  "zero_Tag = \<lparr>Tag_Name = []\<rparr>"

definition zero_Artist :: Artist where
  "zero_Artist = Artist [] [] [] [] [] [] [] [] [] None None None"

definition zero_Relation :: Relation where
  "zero_Relation = Relation [] [] zero_Artist"

definition zero_TextRepresentation :: TextRepresentation where
  "zero_TextRepresentation = \<lparr>Language = [], Script = []\<rparr>"

definition zero_ArtistCredit :: ArtistCredit where
  "zero_ArtistCredit = \<lparr>ArtistCredit_Name = []\<rparr>"

definition zero_ArtistName :: ArtistName where
  "zero_ArtistName = \<lparr>ArtistName_Name = []\<rparr>"

definition zero_ReleaseGroup :: ReleaseGroup where
  "zero_ReleaseGroup = \<lparr>ReleaseGroup_ID = [], ReleaseGroup_Type = []\<rparr>"

definition zero_GBImage :: GBImage where
  "zero_GBImage = \<lparr>ImageURL = [], Types = None\<rparr>"

definition zero_CoverArtURL :: CoverArtURL where
  "zero_CoverArtURL = \<lparr>Artwork = False, Front = False, Back = False, Count = 0, Images = None\<rparr>"

definition zero_Release :: Release where
  "zero_Release =
     \<lparr>Release_ID = [], Release_Title = [], Release_Status = [],
      Release_TextRepresetation = zero_TextRepresentation, Release_ArtistCredit = None,
      Release_ReleaseGroup = zero_ReleaseGroup, Release_Relations = None,
      Release_Tags = None, Release_CoverArtURL = None\<rparr>"

definition zero_Recording :: Recording where
  "zero_Recording =
     \<lparr>Recording_ID = [], Recording_Title = [], Recording_Length = 0,
      Recording_ReleaseDate = [], Recording_Relations = None, Recording_Tags = None,
      Recording_ArtistCredit = None, Recording_Releases = None\<rparr>"

definition zero_ArtistsResult :: ArtistsResult where
  "zero_ArtistsResult = \<lparr>Artists = None\<rparr>"

definition zero_ReleasesResult :: ReleasesResult where
  "zero_ReleasesResult = \<lparr>Releases = None\<rparr>"

definition zero_RecordingsResult :: RecordingsResult where
  "zero_RecordingsResult = \<lparr>Recordings = None\<rparr>"

subsection \<open>Field updates of the two datatypes\<close>

primrec Artist_ID_update :: "(string \<Rightarrow> string) \<Rightarrow> Artist \<Rightarrow> Artist" where
  "Artist_ID_update f (Artist a b c d e g h i j k l m) = Artist (f a) b c d e g h i j k l m"

primrec Artist_Name_update :: "(string \<Rightarrow> string) \<Rightarrow> Artist \<Rightarrow> Artist" where
  "Artist_Name_update f (Artist a b c d e g h i j k l m) = Artist a (f b) c d e g h i j k l m"

primrec Artist_SortName_update :: "(string \<Rightarrow> string) \<Rightarrow> Artist \<Rightarrow> Artist" where
  "Artist_SortName_update f (Artist a b c d e g h i j k l m) = Artist a b (f c) d e g h i j k l m"

primrec Artist_Type_update :: "(string \<Rightarrow> string) \<Rightarrow> Artist \<Rightarrow> Artist" where
  "Artist_Type_update f (Artist a b c d e g h i j k l m) = Artist a b c (f d) e g h i j k l m"

primrec Artist_Country_update :: "(string \<Rightarrow> string) \<Rightarrow> Artist \<Rightarrow> Artist" where
  "Artist_Country_update f (Artist a b c d e g h i j k l m) = Artist a b c d (f e) g h i j k l m"

primrec Artist_Area_update :: "(string \<Rightarrow> string) \<Rightarrow> Artist \<Rightarrow> Artist" where
  "Artist_Area_update f (Artist a b c d e g h i j k l m) = Artist a b c d e (f g) h i j k l m"

primrec Artist_BeginDate_update :: "(string \<Rightarrow> string) \<Rightarrow> Artist \<Rightarrow> Artist" where
  "Artist_BeginDate_update f (Artist a b c d e g h i j k l m) = Artist a b c d e g (f h) i j k l m"

primrec Artist_EndDate_update :: "(string \<Rightarrow> string) \<Rightarrow> Artist \<Rightarrow> Artist" where
  "Artist_EndDate_update f (Artist a b c d e g h i j k l m) = Artist a b c d e g h (f i) j k l m"

primrec Artist_Disambig_update :: "(string \<Rightarrow> string) \<Rightarrow> Artist \<Rightarrow> Artist" where
  "Artist_Disambig_update f (Artist a b c d e g h i j k l m) = Artist a b c d e g h i (f j) k l m"

primrec Artist_Aliases_update :: "(Alias slice \<Rightarrow> Alias slice) \<Rightarrow> Artist \<Rightarrow> Artist" where
  "Artist_Aliases_update f (Artist a b c d e g h i j k l m) = Artist a b c d e g h i j (f k) l m"

primrec Artist_Relations_update :: "(Relation slice \<Rightarrow> Relation slice) \<Rightarrow> Artist \<Rightarrow> Artist" where
  "Artist_Relations_update f (Artist a b c d e g h i j k l m) = Artist a b c d e g h i j k (f l) m"

primrec Artist_Tags_update :: "(Tag slice \<Rightarrow> Tag slice) \<Rightarrow> Artist \<Rightarrow> Artist" where
  "Artist_Tags_update f (Artist a b c d e g h i j k l m) = Artist a b c d e g h i j k l (f m)"

primrec Relation_Type_update :: "(string \<Rightarrow> string) \<Rightarrow> Relation \<Rightarrow> Relation" where
  "Relation_Type_update f (Relation a b c) = Relation (f a) b c"

primrec Relation_URL_update :: "(string \<Rightarrow> string) \<Rightarrow> Relation \<Rightarrow> Relation" where
  "Relation_URL_update f (Relation a b c) = Relation a (f b) c"

primrec Relation_Artist_update :: "(Artist \<Rightarrow> Artist) \<Rightarrow> Relation \<Rightarrow> Relation" where
  "Relation_Artist_update f (Relation a b c) = Relation a b (f c)"


section \<open>\<^verbatim>\<open>json.Unmarshal\<close>\<close>

text \<open>
  The decoder of \<^verbatim>\<open>encoding/json\<close> is driven by the struct declarations: for every member
  of a JSON object it looks for the struct field whose \<^verbatim>\<open>json\<close> tag is the member's key
  (exactly, or else up to case folding), decodes the member's value into that field, and
  skips a member that matches no field.  A value of the wrong JSON kind does not abort the
  decoding: the first such \<^verbatim>\<open>UnmarshalTypeError\<close> is saved, the field is left as it was,
  decoding goes on, and the saved error is what \<^verbatim>\<open>Unmarshal\<close> returns.  \<^verbatim>\<open>null\<close> leaves a
  string, a number, a boolean or a struct as it was and sets a slice to \<^verbatim>\<open>nil\<close>.  An array
  decoded into a slice gives a fresh slice whose elements are decoded from zero values (the
  package documentation's description).

  A decoder takes the JSON value, and the pair of the Go value being decoded into and the
  error saved so far, and returns that pair updated.
\<close>

type_synonym 'a dec = "json \<Rightarrow> 'a \<times> error option \<Rightarrow> 'a \<times> error option"

definition saveError :: "error \<Rightarrow> error option \<Rightarrow> error option" where
  "saveError err saved = (case saved of None \<Rightarrow> Some err | Some e \<Rightarrow> Some e)"

fun kind :: "json \<Rightarrow> string" where
  "kind JNull = ''null''"
| "kind (JBool b) = ''bool''"
| "kind (JInt n) = ''number''"
| "kind (JFloat s) = ''number''"
| "kind (JStr s) = ''string''"
| "kind (JArr xs) = ''array''"
| "kind (JObj kvs) = ''object''"

fun dec_string :: "string dec" where
  "dec_string (JStr s) (cur, saved) = (s, saved)"
| "dec_string JNull (cur, saved) = (cur, saved)"
| "dec_string j (cur, saved) = (cur, saveError (UnmarshalTypeError (kind j) ''string'') saved)"

fun dec_bool :: "bool dec" where
  "dec_bool (JBool b) (cur, saved) = (b, saved)"
| "dec_bool JNull (cur, saved) = (cur, saved)"
| "dec_bool j (cur, saved) = (cur, saveError (UnmarshalTypeError (kind j) ''bool'') saved)"

text \<open>
  A number decodes into an \<^verbatim>\<open>int\<close> when its literal is an integer that fits 64 bits
  (\<^verbatim>\<open>strconv.ParseInt\<close>); otherwise the error carries the literal.
\<close>

fun dec_int :: "int dec" where
  "dec_int (JInt n) (cur, saved) =
     (if - (2 ^ 63) \<le> n \<and> n < 2 ^ 63 then (n, saved)
      else (cur, saveError (UnmarshalTypeError (''number '' @ Itoa n) ''int'') saved))"
| "dec_int (JFloat s) (cur, saved) =
     (cur, saveError (UnmarshalTypeError (''number '' @ s) ''int'') saved)"
| "dec_int JNull (cur, saved) = (cur, saved)"
| "dec_int j (cur, saved) = (cur, saveError (UnmarshalTypeError (kind j) ''int'') saved)"

fun dec_elems :: "'a \<Rightarrow> 'a dec \<Rightarrow> json list \<Rightarrow> error option \<Rightarrow> 'a list \<times> error option" where
  "dec_elems zero d [] saved = ([], saved)"
| "dec_elems zero d (x # xs) saved =
     (let (y, saved1) = d x (zero, saved);
          (ys, saved2) = dec_elems zero d xs saved1
      in (y # ys, saved2))"

fun dec_slice :: "string \<Rightarrow> 'a \<Rightarrow> 'a dec \<Rightarrow> 'a slice dec" where
  "dec_slice ty zero d (JArr xs) (cur, saved) =
     (let (ys, saved') = dec_elems zero d xs saved in (Some ys, saved'))"
| "dec_slice ty zero d JNull (cur, saved) = (None, saved)"
| "dec_slice ty zero d j (cur, saved) = (cur, saveError (UnmarshalTypeError (kind j) ty) saved)"

text \<open>
  One line of a struct declaration: the field's getter and updater and the decoder of its
  type.
\<close>

definition field :: "('s \<Rightarrow> 'a) \<Rightarrow> (('a \<Rightarrow> 'a) \<Rightarrow> 's \<Rightarrow> 's) \<Rightarrow> 'a dec \<Rightarrow> 's dec" where
  "field get upd d j =
     (\<lambda>(s, saved). let (x, saved') = d j (get s, saved) in (upd (\<lambda>_. x) s, saved'))"

text \<open>
  Key folding.  ASCII letters are folded to upper case; the two non-ASCII characters whose
  case orbit contains an ASCII letter, the Kelvin sign (UTF-8 \<^verbatim>\<open>E2 84 AA\<close>) and the long s
  (UTF-8 \<^verbatim>\<open>C5 BF\<close>), fold to \<^verbatim>\<open>K\<close> and \<^verbatim>\<open>S\<close>.  Other non-ASCII bytes are kept: the
  library folds them among non-ASCII characters, which cannot make a key equal to one of
  the (ASCII) tags of this package.
\<close>

definition toUpper :: "char \<Rightarrow> char" where
  "toUpper c = (if CHR ''a'' \<le> c \<and> c \<le> CHR ''z'' then char_of (of_char c - (32::nat)) else c)"

fun foldName :: "string \<Rightarrow> string" where
  "foldName [] = []"
| "foldName (c # cs) =
     (if (of_char c :: nat) < 128 then toUpper c # foldName cs
      else if c = CHR 0xE2 \<and> take 2 cs = [CHR 0x84, CHR 0xAA] then CHR ''K'' # foldName (drop 2 cs)
      else if c = CHR 0xC5 \<and> take 1 cs = [CHR 0xBF] then CHR ''S'' # foldName (drop 1 cs)
      else c # foldName cs)"

text \<open>The field for a key: an exact match of a tag, else the first match after folding.\<close>

definition field_for :: "(string \<times> 's dec) list \<Rightarrow> string \<Rightarrow> 's dec option" where
  "field_for tbl k =
     (case map_of tbl k of
        Some d \<Rightarrow> Some d
      | None \<Rightarrow> map_of (map (\<lambda>(n, d). (foldName n, d)) tbl) (foldName k))"

definition dec_member :: "(string \<times> 's dec) list \<Rightarrow> string \<times> json \<Rightarrow> 's \<times> error option \<Rightarrow> 's \<times> error option" where
  "dec_member tbl kv st = (case field_for tbl (fst kv) of None \<Rightarrow> st | Some d \<Rightarrow> d (snd kv) st)"

fun dec_struct :: "string \<Rightarrow> (string \<times> 's dec) list \<Rightarrow> 's dec" where
  "dec_struct ty tbl (JObj kvs) st = fold (dec_member tbl) kvs st"
| "dec_struct ty tbl JNull st = st"
| "dec_struct ty tbl j (cur, saved) = (cur, saveError (UnmarshalTypeError (kind j) ty) saved)"

text \<open>
  \<^verbatim>\<open>json.Unmarshal(body, &v)\<close>: a body that is not JSON gives the scanner's error and
  leaves \<open>v\<close> alone; otherwise the document is decoded into \<open>v\<close> and the saved error, if
  any, is returned.
\<close>

definition Unmarshal :: "'a dec \<Rightarrow> body \<Rightarrow> 'a \<Rightarrow> 'a \<times> error option" where
  "Unmarshal d b v =
     (case b of
        Malformed msg \<Rightarrow> (v, Some (SyntaxError msg))
      | Wellformed j \<Rightarrow> d j (v, None))"

subsection \<open>The field tables of the structs\<close>

definition Alias_fields :: "(string \<times> Alias dec) list" where
  "Alias_fields =
     [(''name'', field Alias_Name Alias_Name_update dec_string),
      (''type'', field Alias_Type Alias_Type_update dec_string)]"

definition dec_Alias :: "Alias dec" where
  "dec_Alias = dec_struct ''musicbrainz.Alias'' Alias_fields"

definition Tag_fields :: "(string \<times> Tag dec) list" where
  "Tag_fields = [(''name'', field Tag_Name Tag_Name_update dec_string)]"

definition dec_Tag :: "Tag dec" where
  "dec_Tag = dec_struct ''musicbrainz.Tag'' Tag_fields"

text \<open>
  The tables of \<open>Artist\<close> and \<open>Relation\<close> take the decoder of the other type as an
  argument; the recursion is closed below.
\<close>

definition Artist_fields :: "Relation dec \<Rightarrow> (string \<times> Artist dec) list" where
  "Artist_fields dRelation =
     [(''id'', field Artist_ID Artist_ID_update dec_string),
      (''name'', field Artist_Name Artist_Name_update dec_string),
      (''sort-name'', field Artist_SortName Artist_SortName_update dec_string),
      (''type'', field Artist_Type Artist_Type_update dec_string),
      (''country'', field Artist_Country Artist_Country_update dec_string),
      (''area'', field Artist_Area Artist_Area_update dec_string),
      (''begin_date'', field Artist_BeginDate Artist_BeginDate_update dec_string),
      (''end_date'', field Artist_EndDate Artist_EndDate_update dec_string),
      (''disambiguation'', field Artist_Disambig Artist_Disambig_update dec_string),
      (''aliases'', field Artist_Aliases Artist_Aliases_update
                      (dec_slice ''[]musicbrainz.Alias'' zero_Alias dec_Alias)),
      (''relations'', field Artist_Relations Artist_Relations_update
                      (dec_slice ''[]musicbrainz.Relation'' zero_Relation dRelation)),
      (''tags'', field Artist_Tags Artist_Tags_update
                      (dec_slice ''[]musicbrainz.Tag'' zero_Tag dec_Tag))]"

definition Relation_fields :: "Artist dec \<Rightarrow> (string \<times> Relation dec) list" where
  "Relation_fields dArtist =
     [(''type'', field Relation_Type Relation_Type_update dec_string),
      (''url'', field Relation_URL Relation_URL_update dec_string),
      (''artist'', field Relation_Artist Relation_Artist_update dArtist)]"

definition dec_Artist_with :: "Relation dec \<Rightarrow> Artist dec" where
  "dec_Artist_with dRelation = dec_struct ''musicbrainz.Artist'' (Artist_fields dRelation)"

definition dec_Relation_with :: "Artist dec \<Rightarrow> Relation dec" where
  "dec_Relation_with dArtist = dec_struct ''musicbrainz.Relation'' (Relation_fields dArtist)"


subsection \<open>Closing the recursion between \<open>Artist\<close> and \<open>Relation\<close>\<close>

text \<open>
  The decoders of a struct and of a slice apply the decoders they are given only to values
  nested in the value being decoded.  These congruence lemmas say so, which is what makes
  the recursive definition terminate.
\<close>

lemma dec_elems_cong:
  "(\<And>x. x \<in> set xs \<Longrightarrow> d x = d' x) \<Longrightarrow> dec_elems z d xs sv = dec_elems z d' xs sv"
  by (induction xs arbitrary: sv) (auto split: prod.splits)

lemma dec_slice_cong:
  assumes "\<And>x. size x < size j \<Longrightarrow> d x = d' x"
  shows "dec_slice ty z d j = dec_slice ty z d' j"
proof (cases j)
  case (JArr xs)
  have "\<And>x. x \<in> set xs \<Longrightarrow> size x < size j"
    using JArr by (simp add: less_Suc_eq_le size_list_estimation')
  then have "\<And>sv. dec_elems z d xs sv = dec_elems z d' xs sv"
    using assms dec_elems_cong by metis
  then show ?thesis using JArr by (auto simp: fun_eq_iff)
qed (auto simp: fun_eq_iff)

lemma map_of_rel:
  "list_all2 (\<lambda>(n, f) (n', f'). n = n' \<and> f v = f' v) tbl tbl' \<Longrightarrow>
   rel_option (\<lambda>f f'. f v = f' v) (map_of (map (\<lambda>(n, d). (g n, d)) tbl) k)
                                    (map_of (map (\<lambda>(n, d). (g n, d)) tbl') k)"
  by (induction tbl tbl' rule: list_all2_induct) auto

lemma field_for_rel:
  assumes h: "list_all2 (\<lambda>(n, f) (n', f'). n = n' \<and> f v = f' v) tbl tbl'"
  shows "rel_option (\<lambda>f f'. f v = f' v) (field_for tbl k) (field_for tbl' k)"
proof -
  have b: "rel_option (\<lambda>f f'. f v = f' v) (map_of tbl k) (map_of tbl' k)"
    using map_of_rel[OF h, of "\<lambda>n. n" k] by simp
  have c: "rel_option (\<lambda>f f'. f v = f' v)
             (map_of (map (\<lambda>(n, d). (foldName n, d)) tbl) (foldName k))
             (map_of (map (\<lambda>(n, d). (foldName n, d)) tbl') (foldName k))"
    by (rule map_of_rel[OF h])
  show ?thesis
  proof (cases "map_of tbl k")
    case None
    then have "map_of tbl' k = None" using b by (auto elim: option.rel_cases)
    then show ?thesis using None c by (simp add: field_for_def)
  next
    case (Some f)
    then obtain f' where "map_of tbl' k = Some f'" "f v = f' v"
      using b by (auto elim: option.rel_cases)
    then show ?thesis using Some by (simp add: field_for_def)
  qed
qed

lemma dec_member_rel:
  assumes "list_all2 (\<lambda>(n, f) (n', f'). n = n' \<and> f v = f' v) tbl tbl'"
  shows "dec_member tbl (k, v) = dec_member tbl' (k, v)"
proof (rule ext)
  fix st
  show "dec_member tbl (k, v) st = dec_member tbl' (k, v) st"
    using field_for_rel[OF assms, of k]
    by (cases "field_for tbl k"; cases "field_for tbl' k") (simp_all add: dec_member_def)
qed

lemma size_member: "(k, v) \<in> set kvs \<Longrightarrow> size v < size (JObj kvs)"
  by (induction kvs) auto

lemma field_cong: "d j = d' j \<Longrightarrow> field g p d j = field g p d' j"
  by (simp add: field_def)

lemma dec_struct_tbl_cong:
  assumes "\<And>k v. size v < size j \<Longrightarrow> dec_member tbl (k, v) = dec_member tbl' (k, v)"
  shows "dec_struct ty tbl j = dec_struct ty tbl' j"
proof (cases j)
  case (JObj kvs)
  have m: "dec_member tbl kv = dec_member tbl' kv" if "kv \<in> set kvs" for kv
    using that assms[of "snd kv" "fst kv"] size_member[of "fst kv" "snd kv" kvs] JObj by simp
  have "fold (dec_member tbl) kvs st = fold (dec_member tbl') kvs st" for st
    by (rule fold_cong) (simp_all add: m)
  then show ?thesis using JObj by (simp add: fun_eq_iff)
qed (simp_all add: fun_eq_iff)

lemma dec_Artist_with_cong [fundef_cong]:
  assumes "j = j'" and "\<And>x. size x < size j' \<Longrightarrow> d x = d' x"
  shows "dec_Artist_with d j = dec_Artist_with d' j'"
  unfolding dec_Artist_with_def assms(1)
proof (rule dec_struct_tbl_cong)
  fix k :: string and v :: json
  assume "size v < size j'"
  then have "dec_slice ''[]musicbrainz.Relation'' zero_Relation d v
           = dec_slice ''[]musicbrainz.Relation'' zero_Relation d' v"
    using assms(2) by (intro dec_slice_cong) simp
  then have "field Artist_Relations Artist_Relations_update
               (dec_slice ''[]musicbrainz.Relation'' zero_Relation d) v
           = field Artist_Relations Artist_Relations_update
               (dec_slice ''[]musicbrainz.Relation'' zero_Relation d') v"
    by (rule field_cong)
  then show "dec_member (Artist_fields d) (k, v) = dec_member (Artist_fields d') (k, v)"
    by (intro dec_member_rel) (simp add: Artist_fields_def)
qed

lemma dec_Relation_with_cong [fundef_cong]:
  assumes "j = j'" and "\<And>x. size x < size j' \<Longrightarrow> d x = d' x"
  shows "dec_Relation_with d j = dec_Relation_with d' j'"
  unfolding dec_Relation_with_def assms(1)
proof (rule dec_struct_tbl_cong)
  fix k :: string and v :: json
  assume "size v < size j'"
  then have "d v = d' v"
    by (rule assms(2))
  then have "field Relation_Artist Relation_Artist_update d v
           = field Relation_Artist Relation_Artist_update d' v"
    by (rule field_cong)
  then show "dec_member (Relation_fields d) (k, v) = dec_member (Relation_fields d') (k, v)"
    by (intro dec_member_rel) (simp add: Relation_fields_def)
qed

function dec_Artist :: "Artist dec" and dec_Relation :: "Relation dec" where
  "dec_Artist j = dec_Artist_with dec_Relation j"
| "dec_Relation j = dec_Relation_with dec_Artist j"
  by pat_completeness auto
termination
  by (relation "measure (\<lambda>x. case x of Inl j \<Rightarrow> size j | Inr j \<Rightarrow> size j)") auto

subsection \<open>The remaining field tables\<close>

definition TextRepresentation_fields :: "(string \<times> TextRepresentation dec) list" where
  "TextRepresentation_fields =
     [(''language'', field Language Language_update dec_string),
      (''script'', field Script Script_update dec_string)]"

definition dec_TextRepresentation :: "TextRepresentation dec" where
  "dec_TextRepresentation = dec_struct ''musicbrainz.TextRepresentation'' TextRepresentation_fields"

definition ArtistCredit_fields :: "(string \<times> ArtistCredit dec) list" where
  "ArtistCredit_fields = [(''name'', field ArtistCredit_Name ArtistCredit_Name_update dec_string)]"

definition dec_ArtistCredit :: "ArtistCredit dec" where
  "dec_ArtistCredit = dec_struct ''musicbrainz.ArtistCredit'' ArtistCredit_fields"

definition ArtistName_fields :: "(string \<times> ArtistName dec) list" where
  "ArtistName_fields = [(''name'', field ArtistName_Name ArtistName_Name_update dec_string)]"

definition dec_ArtistName :: "ArtistName dec" where
  "dec_ArtistName = dec_struct ''musicbrainz.ArtistName'' ArtistName_fields"

definition ReleaseGroup_fields :: "(string \<times> ReleaseGroup dec) list" where
  "ReleaseGroup_fields =
     [(''id'', field ReleaseGroup_ID ReleaseGroup_ID_update dec_string),
      (''type'', field ReleaseGroup_Type ReleaseGroup_Type_update dec_string)]"

definition dec_ReleaseGroup :: "ReleaseGroup dec" where
  "dec_ReleaseGroup = dec_struct ''musicbrainz.ReleaseGroup'' ReleaseGroup_fields"

definition GBImage_fields :: "(string \<times> GBImage dec) list" where
  "GBImage_fields =
     [(''image'', field ImageURL ImageURL_update dec_string),
      (''types'', field Types Types_update (dec_slice ''[]string'' [] dec_string))]"

definition dec_GBImage :: "GBImage dec" where
  "dec_GBImage = dec_struct ''musicbrainz.GBImage'' GBImage_fields"

definition CoverArtURL_fields :: "(string \<times> CoverArtURL dec) list" where
  "CoverArtURL_fields =
     [(''artwork'', field Artwork Artwork_update dec_bool),
      (''front'', field Front Front_update dec_bool),
      (''back'', field Back Back_update dec_bool),
      (''count'', field Count Count_update dec_int),
      (''images'', field Images Images_update
                     (dec_slice ''[]musicbrainz.GBImage'' zero_GBImage dec_GBImage))]"

definition dec_CoverArtURL :: "CoverArtURL dec" where
  "dec_CoverArtURL = dec_struct ''musicbrainz.CoverArtURL'' CoverArtURL_fields"

definition Release_fields :: "(string \<times> Release dec) list" where
  "Release_fields =
     [(''id'', field Release_ID Release_ID_update dec_string),
      (''title'', field Release_Title Release_Title_update dec_string),
      (''status'', field Release_Status Release_Status_update dec_string),
      (''text-representation'', field Release_TextRepresetation Release_TextRepresetation_update
                     dec_TextRepresentation),
      (''artist-credit'', field Release_ArtistCredit Release_ArtistCredit_update
                     (dec_slice ''[]musicbrainz.ArtistCredit'' zero_ArtistCredit dec_ArtistCredit)),
      (''release-group'', field Release_ReleaseGroup Release_ReleaseGroup_update dec_ReleaseGroup),
      (''relations'', field Release_Relations Release_Relations_update
                     (dec_slice ''[]musicbrainz.Relation'' zero_Relation dec_Relation)),
      (''tags'', field Release_Tags Release_Tags_update
                     (dec_slice ''[]musicbrainz.Tag'' zero_Tag dec_Tag)),
      (''cover-art-archive'', field Release_CoverArtURL Release_CoverArtURL_update
                     (dec_slice ''[]musicbrainz.CoverArtURL'' zero_CoverArtURL dec_CoverArtURL))]"

definition dec_Release :: "Release dec" where
  "dec_Release = dec_struct ''musicbrainz.Release'' Release_fields"

definition Recording_fields :: "(string \<times> Recording dec) list" where
  "Recording_fields =
     [(''id'', field Recording_ID Recording_ID_update dec_string),
      (''title'', field Recording_Title Recording_Title_update dec_string),
      (''length'', field Recording_Length Recording_Length_update dec_int),
      (''first-release-date'', field Recording_ReleaseDate Recording_ReleaseDate_update dec_string),
      (''relations'', field Recording_Relations Recording_Relations_update
                     (dec_slice ''[]musicbrainz.Relation'' zero_Relation dec_Relation)),
      (''tags'', field Recording_Tags Recording_Tags_update
                     (dec_slice ''[]musicbrainz.Tag'' zero_Tag dec_Tag)),
      (''artist-credit'', field Recording_ArtistCredit Recording_ArtistCredit_update
                     (dec_slice ''[]musicbrainz.ArtistName'' zero_ArtistName dec_ArtistName)),
      (''releases'', field Recording_Releases Recording_Releases_update
                     (dec_slice ''[]musicbrainz.Release'' zero_Release dec_Release))]"

definition dec_Recording :: "Recording dec" where
  "dec_Recording = dec_struct ''musicbrainz.Recording'' Recording_fields"

definition ArtistsResult_fields :: "(string \<times> ArtistsResult dec) list" where
  "ArtistsResult_fields =
     [(''artists'', field Artists Artists_update
                     (dec_slice ''[]musicbrainz.Artist'' zero_Artist dec_Artist))]"

definition dec_ArtistsResult :: "ArtistsResult dec" where
  "dec_ArtistsResult = dec_struct ''struct { Artists []musicbrainz.Artist }'' ArtistsResult_fields"

definition ReleasesResult_fields :: "(string \<times> ReleasesResult dec) list" where
  "ReleasesResult_fields =
     [(''releases'', field Releases Releases_update
                     (dec_slice ''[]musicbrainz.Release'' zero_Release dec_Release))]"

definition dec_ReleasesResult :: "ReleasesResult dec" where
  "dec_ReleasesResult = dec_struct ''struct { Releases []musicbrainz.Release }'' ReleasesResult_fields"

definition RecordingsResult_fields :: "(string \<times> RecordingsResult dec) list" where
  "RecordingsResult_fields =
     [(''recordings'', field Recordings Recordings_update
                     (dec_slice ''[]musicbrainz.Recording'' zero_Recording dec_Recording))]"

definition dec_RecordingsResult :: "RecordingsResult dec" where
  "dec_RecordingsResult =
     dec_struct ''struct { Recordings []musicbrainz.Recording }'' RecordingsResult_fields"


section \<open>The network\<close>

text \<open>
  What the package sees of a response: the status code (a field it never reads) and what
  reading the body stream to its end gives, an error or the bytes.  The network is any
  function from the requests made so far and the URL requested now to the outcome of
  \<^verbatim>\<open>http.Get\<close>.  Every operation takes the log of requests and returns it extended, so the
  number and the order of the requests it makes can be stated.  Closing the body
  (\<^verbatim>\<open>defer response.Body.Close()\<close>) has no effect on any result and is not modelled.
\<close>

record Response =
  StatusCode :: int
  Body :: "error + body"

type_synonym transport = "string list \<Rightarrow> string \<Rightarrow> error + Response"

definition http_Get :: "transport \<Rightarrow> string list \<Rightarrow> string \<Rightarrow> (error + Response) \<times> string list" where
  "http_Get net log url = (net log url, log @ [url])"

definition ReadAll :: "error + body \<Rightarrow> error + body" where
  "ReadAll stream = stream"

section \<open>The operations\<close>

definition SearchArtists :: "transport \<Rightarrow> string list \<Rightarrow> string \<Rightarrow> int \<Rightarrow> (Artist slice \<times> error option) \<times> string list" where
  "SearchArtists net log name limit =
     (let params = [];
          params = Values_Set params ''query'' name;
          params = Values_Set params ''limit'' (Itoa limit);
          params = Values_Set params ''fmt'' ''json'';
          url = MusicBrainzAPIEndpoint @ ''artist/?'' @ Values_Encode params;
          (got, log') = http_Get net log url
      in case got of
           Inl err \<Rightarrow> ((None, Some err), log')
         | Inr response \<Rightarrow>
             (case ReadAll (Body response) of
                Inl err \<Rightarrow> ((None, Some err), log')
              | Inr body \<Rightarrow>
                  (case Unmarshal dec_ArtistsResult body zero_ArtistsResult of
                     (result, Some err) \<Rightarrow> ((None, Some err), log')
                   | (result, None) \<Rightarrow> ((Artists result, None), log'))))"

definition GetArtistByID :: "transport \<Rightarrow> string list \<Rightarrow> string \<Rightarrow> (Artist option \<times> error option) \<times> string list" where
  "GetArtistByID net log ident =
     (let url = MusicBrainzAPIEndpoint @ ''artist/'' @ ident @ ''?fmt=json'';
          (got, log') = http_Get net log url
      in case got of
           Inl err \<Rightarrow> ((None, Some err), log')
         | Inr response \<Rightarrow>
             (case ReadAll (Body response) of
                Inl err \<Rightarrow> ((None, Some err), log')
              | Inr body \<Rightarrow>
                  (case Unmarshal dec_Artist body zero_Artist of
                     (artist, Some err) \<Rightarrow> ((None, Some err), log')
                   | (artist, None) \<Rightarrow> ((Some artist, None), log'))))"

definition SearchReleases :: "transport \<Rightarrow> string list \<Rightarrow> string \<Rightarrow> int \<Rightarrow> (Release slice \<times> error option) \<times> string list" where
  "SearchReleases net log title limit =
     (let params = [];
          params = Values_Set params ''query'' title;
          params = Values_Set params ''limit'' (Itoa limit);
          params = Values_Set params ''fmt'' ''json'';
          url = MusicBrainzAPIEndpoint @ ''release/?'' @ Values_Encode params;
          (got, log') = http_Get net log url
      in case got of
           Inl err \<Rightarrow> ((None, Some err), log')
         | Inr response \<Rightarrow>
             (case ReadAll (Body response) of
                Inl err \<Rightarrow> ((None, Some err), log')
              | Inr body \<Rightarrow>
                  (case Unmarshal dec_ReleasesResult body zero_ReleasesResult of
                     (result, Some err) \<Rightarrow> ((None, Some err), log')
                   | (result, None) \<Rightarrow> ((Releases result, None), log'))))"

definition GetReleaseByID :: "transport \<Rightarrow> string list \<Rightarrow> string \<Rightarrow> (Release option \<times> error option) \<times> string list" where
  "GetReleaseByID net log ident =
     (let url = MusicBrainzAPIEndpoint @ ''release/'' @ ident @ ''?fmt=json'';
          (got, log') = http_Get net log url
      in case got of
           Inl err \<Rightarrow> ((None, Some err), log')
         | Inr response \<Rightarrow>
             (case ReadAll (Body response) of
                Inl err \<Rightarrow> ((None, Some err), log')
              | Inr body \<Rightarrow>
                  (case Unmarshal dec_Release body zero_Release of
                     (release, Some err) \<Rightarrow> ((None, Some err), log')
                   | (release, None) \<Rightarrow> ((Some release, None), log'))))"

definition SearchRecordings :: "transport \<Rightarrow> string list \<Rightarrow> string \<Rightarrow> int \<Rightarrow> (Recording slice \<times> error option) \<times> string list" where
  "SearchRecordings net log title limit =
     (let params = [];
          params = Values_Set params ''query'' title;
          params = Values_Set params ''limit'' (Itoa limit);
          params = Values_Set params ''fmt'' ''json'';
          url = MusicBrainzAPIEndpoint @ ''recording/?'' @ Values_Encode params;
          (got, log') = http_Get net log url
      in case got of
           Inl err \<Rightarrow> ((None, Some err), log')
         | Inr response \<Rightarrow>
             (case ReadAll (Body response) of
                Inl err \<Rightarrow> ((None, Some err), log')
              | Inr body \<Rightarrow>
                  (case Unmarshal dec_RecordingsResult body zero_RecordingsResult of
                     (result, Some err) \<Rightarrow> ((None, Some err), log')
                   | (result, None) \<Rightarrow> ((Recordings result, None), log'))))"

definition GetRecordingByID :: "transport \<Rightarrow> string list \<Rightarrow> string \<Rightarrow> (Recording option \<times> error option) \<times> string list" where
  "GetRecordingByID net log ident =
     (let url = MusicBrainzAPIEndpoint @ ''recording/'' @ ident @ ''?fmt=json'';
          (got, log') = http_Get net log url
      in case got of
           Inl err \<Rightarrow> ((None, Some err), log')
         | Inr response \<Rightarrow>
             (case ReadAll (Body response) of
                Inl err \<Rightarrow> ((None, Some err), log')
              | Inr body \<Rightarrow>
                  (case Unmarshal dec_Recording body zero_Recording of
                     (recording, Some err) \<Rightarrow> ((None, Some err), log')
                   | (recording, None) \<Rightarrow> ((Some recording, None), log'))))"

definition SearchRecordingsByTitleAndArtist :: "transport \<Rightarrow> string list \<Rightarrow> string \<Rightarrow> string \<Rightarrow> (Recording slice \<times> error option) \<times> string list" where
  "SearchRecordingsByTitleAndArtist net log title artist =
     (let query = QueryEscape (''recording:'' @ title @ '' artist:'' @ artist);
          url = MusicBrainzAPIEndpoint @ ''recording/?query='' @ query @ ''&limit=20&fmt=json'';
          (got, log') = http_Get net log url
      in case got of
           Inl err \<Rightarrow> ((None, Some err), log')
         | Inr response \<Rightarrow>
             (case ReadAll (Body response) of
                Inl err \<Rightarrow> ((None, Some err), log')
              | Inr body \<Rightarrow>
                  (case Unmarshal dec_RecordingsResult body zero_RecordingsResult of
                     (result, Some err) \<Rightarrow> ((None, Some err), log')
                   | (result, None) \<Rightarrow> ((Recordings result, None), log'))))"

definition GetRecordingByIDWithTags :: "transport \<Rightarrow> string list \<Rightarrow> string \<Rightarrow> (Recording option \<times> error option) \<times> string list" where
  "GetRecordingByIDWithTags net log ident =
     (let url = MusicBrainzAPIEndpoint @ ''recording/'' @ ident @ ''?fmt=json'';
          (got, log') = http_Get net log url
      in case got of
           Inl err \<Rightarrow> ((None, Some err), log')
         | Inr response \<Rightarrow>
             (case ReadAll (Body response) of
                Inl err \<Rightarrow> ((None, Some err), log')
              | Inr body \<Rightarrow>
                  (case Unmarshal dec_Recording body zero_Recording of
                     (recording, Some err) \<Rightarrow> ((None, Some err), log')
                   | (recording, None) \<Rightarrow> ((Some recording, None), log'))))"

text \<open>
  \<^verbatim>\<open>GetTagsByTitleAndArtistAndAlbum\<close> returns three values.  Inside the branch for one
  match, \<^verbatim>\<open>result.Recordings[0]\<close> is read under the guard \<^verbatim>\<open>len(result.Recordings) == 1\<close>,
  and the pointer returned by the lookup is dereferenced only when the lookup's error is
  \<^verbatim>\<open>nil\<close>, in which case the lookup returned the address of its local variable.
\<close>

definition GetTagsByTitleAndArtistAndAlbum :: "transport \<Rightarrow> string list \<Rightarrow> string \<Rightarrow> string \<Rightarrow> string \<Rightarrow> (Tag slice \<times> string \<times> error option) \<times> string list" where
  "GetTagsByTitleAndArtistAndAlbum net log title artist album =
     (let query = QueryEscape (''recording:'' @ title @ '' artist:'' @ artist @ '' release:'' @ album);
          url = MusicBrainzAPIEndpoint @ ''recording/?query='' @ query @ ''&limit=1&fmt=json'';
          (got, log') = http_Get net log url
      in case got of
           Inl err \<Rightarrow> ((None, [], Some err), log')
         | Inr response \<Rightarrow>
             (case ReadAll (Body response) of
                Inl err \<Rightarrow> ((None, [], Some err), log')
              | Inr body \<Rightarrow>
                  (case Unmarshal dec_RecordingsResult body zero_RecordingsResult of
                     (result, Some err) \<Rightarrow> ((None, [], Some err), log')
                   | (result, None) \<Rightarrow>
                       (if len (Recordings result) = 1
                        then (case GetRecordingByIDWithTags net log'
                                     (Recording_ID (the (Recordings result) ! 0)) of
                                ((recording, Some err), log'') \<Rightarrow> ((None, [], Some err), log'')
                              | ((recording, None), log'') \<Rightarrow>
                                  ((Recording_Tags (the recording),
                                    Recording_ReleaseDate (the recording), None), log''))
                        else (let err = Some (ErrorString ''MusicBrainz didn't find the song'')
                              in ((None, [], err), log'))))))"


section \<open>Example networks\<close>

text \<open>
  Two concrete networks for evaluating the operations: one that gives every request the
  same outcome, and one that answers the requests in order from a list of outcomes.
\<close>

definition net_always :: "error + Response \<Rightarrow> transport" where
  "net_always outcome log url = outcome"

definition net_script :: "(error + Response) list \<Rightarrow> transport" where
  "net_script outcomes log url =
     (if length log < length outcomes then outcomes ! length log
      else Inl (TransportError ''connection refused''))"

definition ok_json :: "int \<Rightarrow> json \<Rightarrow> error + Response" where
  "ok_json code j = Inr \<lparr>StatusCode = code, Body = Inr (Wellformed j)\<rparr>"

section \<open>Vocabulary of the specification\<close>

text \<open>
  The specification describes every operation as one request/response cycle: issue the GET,
  read the whole body, unmarshal it, and return either the value with a \<^verbatim>\<open>nil\<close> error or
  the first error met.  \<open>round_trip\<close> is that description, written from the
  specification's words; the operations are compared with it below.
\<close>


definition round_trip :: "transport \<Rightarrow> string list \<Rightarrow> string \<Rightarrow> 'a dec \<Rightarrow> 'a \<Rightarrow> error + 'a" where
  "round_trip net log url d zero =
     (case net log url of
        Inl err \<Rightarrow> Inl err
      | Inr response \<Rightarrow>
          (case Body response of
             Inl err \<Rightarrow> Inl err
           | Inr body \<Rightarrow>
               (case Unmarshal d body zero of
                  (v, Some err) \<Rightarrow> Inl err
                | (v, None) \<Rightarrow> Inr v)))"

definition search_url :: "string \<Rightarrow> string \<Rightarrow> int \<Rightarrow> string" where
  "search_url entity text limit =
     ''https://musicbrainz.org/ws/2/'' @ entity @ ''/?fmt=json&limit='' @ Itoa limit
       @ ''&query='' @ QueryEscape text"

definition lookup_url :: "string \<Rightarrow> string \<Rightarrow> string" where
  "lookup_url entity ident = ''https://musicbrainz.org/ws/2/'' @ entity @ ''/'' @ ident @ ''?fmt=json''"

definition structured_url :: "string \<Rightarrow> string \<Rightarrow> string" where
  "structured_url query limit =
     ''https://musicbrainz.org/ws/2/recording/?query='' @ QueryEscape query
       @ ''&limit='' @ limit @ ''&fmt=json''"


text \<open>
  A key is present in an object when one of its members has that key up to the decoder's
  folding.
\<close>

definition has_key :: "string \<Rightarrow> (string \<times> json) list \<Rightarrow> bool" where
  "has_key tag kvs = list_ex (\<lambda>kv. foldName (fst kv) = foldName tag) kvs"

section \<open>The URLs that are requested\<close>


lemma sort_keys: "sort [''query'', ''limit'', ''fmt''] = [''fmt'', ''limit'', ''query'']"
  by code_simp

lemma QueryEscape_literals:
  "QueryEscape ''fmt'' = ''fmt''" "QueryEscape ''json'' = ''json''"
  "QueryEscape ''limit'' = ''limit''" "QueryEscape ''query'' = ''query''"
  by code_simp+

lemma shouldEscape_digit: "d < 10 \<Longrightarrow> \<not> shouldEscape (digit d)"
  by (simp add: shouldEscape_def digit_def less_eq_char_def)

lemma escapeByte_digit: "d < 10 \<Longrightarrow> escapeByte (digit d) = [digit d]"
  by (simp add: escapeByte_def shouldEscape_digit)

lemma QueryEscape_append: "QueryEscape (a @ b) = QueryEscape a @ QueryEscape b"
  by (simp add: QueryEscape_def)

lemma QueryEscape_formatUint: "QueryEscape (formatUint n) = formatUint n"
proof (induction n rule: formatUint.induct)
  case (1 n)
  show ?case
  proof (cases "n < 10")
    case True
    then show ?thesis by (subst (1 2) formatUint.simps) (simp add: QueryEscape_def escapeByte_digit)
  next
    case False
    have "QueryEscape [digit (n mod 10)] = [digit (n mod 10)]"
      by (simp add: QueryEscape_def escapeByte_digit)
    then show ?thesis
      using False 1 by (subst (1 2) formatUint.simps) (simp add: QueryEscape_append)
  qed
qed

lemma QueryEscape_Itoa: "QueryEscape (Itoa i) = Itoa i"
proof -
  have "QueryEscape ''-'' = ''-''" by code_simp
  then have "QueryEscape (CHR ''-'' # s) = CHR ''-'' # QueryEscape s" for s
    using QueryEscape_append[of "''-''" s] by simp
  then show ?thesis by (simp add: Itoa_def QueryEscape_formatUint)
qed

lemma Values_Encode_search:
  "Values_Encode (Values_Set (Values_Set (Values_Set [] ''query'' text) ''limit'' (Itoa n)) ''fmt'' ''json'')
     = ''fmt=json&limit='' @ Itoa n @ ''&query='' @ QueryEscape text"
  by (simp add: Values_Encode_def Values_Set_def sort_keys QueryEscape_literals QueryEscape_Itoa)



section \<open>Every operation is a request/response cycle\<close>

lemma SearchArtists_round_trip:
  "SearchArtists net log name limit =
     (case round_trip net log (search_url ''artist'' name limit) dec_ArtistsResult zero_ArtistsResult of
        Inl err \<Rightarrow> ((None, Some err), log @ [search_url ''artist'' name limit])
      | Inr result \<Rightarrow> ((Artists result, None), log @ [search_url ''artist'' name limit]))"
  by (simp add: SearchArtists_def round_trip_def search_url_def Values_Encode_search
        MusicBrainzAPIEndpoint_def http_Get_def ReadAll_def Let_def
      split: sum.splits prod.splits option.splits)

lemma GetArtistByID_round_trip:
  "GetArtistByID net log ident =
     (case round_trip net log (lookup_url ''artist'' ident) dec_Artist zero_Artist of
        Inl err \<Rightarrow> ((None, Some err), log @ [lookup_url ''artist'' ident])
      | Inr v \<Rightarrow> ((Some v, None), log @ [lookup_url ''artist'' ident]))"
  by (simp add: GetArtistByID_def round_trip_def lookup_url_def
        MusicBrainzAPIEndpoint_def http_Get_def ReadAll_def Let_def
      split: sum.splits prod.splits option.splits)

lemma SearchReleases_round_trip:
  "SearchReleases net log title limit =
     (case round_trip net log (search_url ''release'' title limit) dec_ReleasesResult zero_ReleasesResult of
        Inl err \<Rightarrow> ((None, Some err), log @ [search_url ''release'' title limit])
      | Inr result \<Rightarrow> ((Releases result, None), log @ [search_url ''release'' title limit]))"
  by (simp add: SearchReleases_def round_trip_def search_url_def Values_Encode_search
        MusicBrainzAPIEndpoint_def http_Get_def ReadAll_def Let_def
      split: sum.splits prod.splits option.splits)

lemma GetReleaseByID_round_trip:
  "GetReleaseByID net log ident =
     (case round_trip net log (lookup_url ''release'' ident) dec_Release zero_Release of
        Inl err \<Rightarrow> ((None, Some err), log @ [lookup_url ''release'' ident])
      | Inr v \<Rightarrow> ((Some v, None), log @ [lookup_url ''release'' ident]))"
  by (simp add: GetReleaseByID_def round_trip_def lookup_url_def
        MusicBrainzAPIEndpoint_def http_Get_def ReadAll_def Let_def
      split: sum.splits prod.splits option.splits)

lemma SearchRecordings_round_trip:
  "SearchRecordings net log title limit =
     (case round_trip net log (search_url ''recording'' title limit) dec_RecordingsResult zero_RecordingsResult of
        Inl err \<Rightarrow> ((None, Some err), log @ [search_url ''recording'' title limit])
      | Inr result \<Rightarrow> ((Recordings result, None), log @ [search_url ''recording'' title limit]))"
  by (simp add: SearchRecordings_def round_trip_def search_url_def Values_Encode_search
        MusicBrainzAPIEndpoint_def http_Get_def ReadAll_def Let_def
      split: sum.splits prod.splits option.splits)

lemma GetRecordingByID_round_trip:
  "GetRecordingByID net log ident =
     (case round_trip net log (lookup_url ''recording'' ident) dec_Recording zero_Recording of
        Inl err \<Rightarrow> ((None, Some err), log @ [lookup_url ''recording'' ident])
      | Inr v \<Rightarrow> ((Some v, None), log @ [lookup_url ''recording'' ident]))"
  by (simp add: GetRecordingByID_def round_trip_def lookup_url_def
        MusicBrainzAPIEndpoint_def http_Get_def ReadAll_def Let_def
      split: sum.splits prod.splits option.splits)

lemma GetRecordingByIDWithTags_round_trip:
  "GetRecordingByIDWithTags net log ident =
     (case round_trip net log (lookup_url ''recording'' ident) dec_Recording zero_Recording of
        Inl err \<Rightarrow> ((None, Some err), log @ [lookup_url ''recording'' ident])
      | Inr v \<Rightarrow> ((Some v, None), log @ [lookup_url ''recording'' ident]))"
  by (simp add: GetRecordingByIDWithTags_def round_trip_def lookup_url_def
        MusicBrainzAPIEndpoint_def http_Get_def ReadAll_def Let_def
      split: sum.splits prod.splits option.splits)

lemma SearchRecordingsByTitleAndArtist_round_trip:
  "SearchRecordingsByTitleAndArtist net log title artist =
     (case round_trip net log (structured_url (''recording:'' @ title @ '' artist:'' @ artist) ''20'')
             dec_RecordingsResult zero_RecordingsResult of
        Inl err \<Rightarrow>
          ((None, Some err),
           log @ [structured_url (''recording:'' @ title @ '' artist:'' @ artist) ''20''])
      | Inr result \<Rightarrow>
          ((Recordings result, None),
           log @ [structured_url (''recording:'' @ title @ '' artist:'' @ artist) ''20'']))"
  by (simp add: SearchRecordingsByTitleAndArtist_def round_trip_def structured_url_def
        MusicBrainzAPIEndpoint_def http_Get_def ReadAll_def Let_def
      split: sum.splits prod.splits option.splits)

lemma len_one: "len s = 1 \<longleftrightarrow> (\<exists>x. s = Some [x])"
  by (cases s) (auto simp: len_def length_Suc_conv)

lemma GetTagsByTitleAndArtistAndAlbum_round_trip:
  "GetTagsByTitleAndArtistAndAlbum net log title artist album =
     (let u1 = structured_url
                 (''recording:'' @ title @ '' artist:'' @ artist @ '' release:'' @ album) ''1''
      in case round_trip net log u1 dec_RecordingsResult zero_RecordingsResult of
           Inl err \<Rightarrow> ((None, [], Some err), log @ [u1])
         | Inr result \<Rightarrow>
             (case Recordings result of
                Some [r] \<Rightarrow>
                  (let u2 = lookup_url ''recording'' (Recording_ID r)
                   in case round_trip net (log @ [u1]) u2 dec_Recording zero_Recording of
                        Inl err \<Rightarrow> ((None, [], Some err), log @ [u1, u2])
                      | Inr recording \<Rightarrow>
                          ((Recording_Tags recording, Recording_ReleaseDate recording, None),
                           log @ [u1, u2]))
              | _ \<Rightarrow>
                  ((None, [], Some (ErrorString ''MusicBrainz didn't find the song'')),
                   log @ [u1])))"
  by (simp add: GetTagsByTitleAndArtistAndAlbum_def GetRecordingByIDWithTags_def round_trip_def
        structured_url_def lookup_url_def MusicBrainzAPIEndpoint_def http_Get_def ReadAll_def
        Let_def len_def
      split: sum.splits prod.splits option.splits list.splits)

section \<open>Members that match no field\<close>


lemma field_for_None:
  assumes "foldName k \<notin> set (map (\<lambda>e. foldName (fst e)) tbl)"
  shows "field_for tbl k = None"
proof -
  have "k \<notin> fst ` set tbl" using assms by force
  then have a: "map_of tbl k = None" by (simp add: map_of_eq_None_iff)
  have "fst ` set (map (\<lambda>(n, d). (foldName n, d)) tbl) = (\<lambda>e. foldName (fst e)) ` set tbl"
    by force
  then have "foldName k \<notin> fst ` set (map (\<lambda>(n, d). (foldName n, d)) tbl)"
    using assms by simp
  then have b: "map_of (map (\<lambda>(n, d). (foldName n, d)) tbl) (foldName k) = None"
    by (simp only: map_of_eq_None_iff simp_thms)
  show ?thesis by (simp add: field_for_def a b)
qed

lemma fold_unmatched:
  "(\<And>kv. kv \<in> set kvs \<Longrightarrow> field_for tbl (fst kv) = None) \<Longrightarrow> fold (dec_member tbl) kvs st = st"
  by (induction kvs arbitrary: st) (simp_all add: dec_member_def)

lemma fold_single_absent:
  assumes "\<not> has_key tag kvs"
  shows "fold (dec_member [(tag, f)]) kvs st = st"
proof (rule fold_unmatched)
  fix kv assume "kv \<in> set kvs"
  then have "foldName (fst kv) \<noteq> foldName tag"
    using assms by (auto simp: has_key_def list_ex_iff)
  then show "field_for [(tag, f)] (fst kv) = None"
    by (intro field_for_None) simp
qed

lemma field_for_single: "field_for [(tag, f)] tag = Some f"
  by (simp add: field_for_def)

lemma envelope_decode:
  assumes "\<not> has_key tag pre" "\<not> has_key tag post"
  shows "dec_struct ty [(tag, field get upd (dec_slice sty z d))]
           (JObj (pre @ (tag, JArr xs) # post)) (s, None)
         = (upd (\<lambda>_. Some (fst (dec_elems z d xs None))) s, snd (dec_elems z d xs None))"
  by (simp add: fold_single_absent[OF assms(1)] fold_single_absent[OF assms(2)]
        dec_member_def field_for_single field_def split: prod.splits)


section \<open>The lookups by identifier\<close>

text \<open>
  Claim C4.  \<^verbatim>\<open>GetRecordingByIDWithTags\<close> and \<^verbatim>\<open>GetRecordingByID\<close> are the same function:
  for every identifier, every network and every request history they request the same URL
  and return the same recording, the same error and the same request log.
\<close>

theorem GetRecordingByIDWithTags_eq_GetRecordingByID:
  "GetRecordingByIDWithTags net log ident = GetRecordingByID net log ident"
  by (simp add: GetRecordingByIDWithTags_def GetRecordingByID_def)

text \<open>
  Claim C9.  Each of the four lookups requests exactly one URL, the base endpoint followed
  by the entity's path, the identifier as it was given (no check, no escaping) and
  \<^verbatim>\<open>?fmt=json\<close>.  For the empty identifier this is \<^verbatim>\<open><base><entity>/?fmt=json\<close>, the
  URL of the entity's search endpoint without a query.
\<close>

theorem lookup_interpolates_id_verbatim:
  "snd (GetArtistByID net log ident)
     = log @ [''https://musicbrainz.org/ws/2/artist/'' @ ident @ ''?fmt=json'']
   \<and> snd (GetReleaseByID net log ident)
     = log @ [''https://musicbrainz.org/ws/2/release/'' @ ident @ ''?fmt=json'']
   \<and> snd (GetRecordingByID net log ident)
     = log @ [''https://musicbrainz.org/ws/2/recording/'' @ ident @ ''?fmt=json'']
   \<and> snd (GetRecordingByIDWithTags net log ident)
     = log @ [''https://musicbrainz.org/ws/2/recording/'' @ ident @ ''?fmt=json'']
   \<and> snd (GetArtistByID net log []) = log @ [''https://musicbrainz.org/ws/2/artist/?fmt=json'']
   \<and> snd (GetReleaseByID net log []) = log @ [''https://musicbrainz.org/ws/2/release/?fmt=json'']
   \<and> snd (GetRecordingByID net log [])
     = log @ [''https://musicbrainz.org/ws/2/recording/?fmt=json'']
   \<and> snd (GetRecordingByIDWithTags net log [])
     = log @ [''https://musicbrainz.org/ws/2/recording/?fmt=json'']"
  by (simp add: GetArtistByID_round_trip GetReleaseByID_round_trip GetRecordingByID_round_trip
        GetRecordingByIDWithTags_round_trip lookup_url_def split: sum.splits)

end
